theory Spec2Isabelle
  imports Complex_Main
begin

section \<open>The tumor progression simulator (\<^verbatim>\<open>src/app.py\<close>)\<close>

text \<open>
  The script integrates a three-compartment ODE model of tumor growth (sensitive,
  partially resistant and resistant cells) for each scenario the user selects, and plots
  totals and relative proportions.

  Finite floating-point numbers are modelled as \<^typ>\<open>real\<close>: rounding is not modelled,
  so every equation below is one of exact arithmetic. The one operation of the script
  that leaves the finite numbers, the division of line 117, returns a value of the type
  \<open>npfloat\<close> below. A one-dimensional numpy array is a list, a two-dimensional one the
  list of its rows.
\<close>

subsection \<open>Errors and numpy arrays\<close>

datatype error = KeyError string | ValueError

type_synonym vec = "real list"
type_synonym mat = "real list list"

text \<open>\<^verbatim>\<open>np.sum(x)\<close> of a one-dimensional array.\<close>

definition np_sum :: "vec \<Rightarrow> real" where
  "np_sum x = sum_list x"

text \<open>A scalar times an array, and an array times a scalar.\<close>

definition scalar_mul :: "real \<Rightarrow> vec \<Rightarrow> vec" where
  "scalar_mul c v = map (\<lambda>a. c * a) v"

definition mul_scalar :: "vec \<Rightarrow> real \<Rightarrow> vec" where
  "mul_scalar v c = map (\<lambda>a. a * c) v"

text \<open>
  An elementwise operation on two one-dimensional arrays, with numpy's broadcasting:
  equal lengths combine pointwise, an array of length one is stretched, and any other pair
  of shapes raises \<^verbatim>\<open>ValueError\<close>.
\<close>

definition broadcast :: "(real \<Rightarrow> real \<Rightarrow> real) \<Rightarrow> vec \<Rightarrow> vec \<Rightarrow> error + vec" where
  "broadcast f v w =
     (if length v = length w then Inr (map2 f v w)
      else if length v = 1 then Inr (map (\<lambda>b. f (hd v) b) w)
      else if length w = 1 then Inr (map (\<lambda>a. f a (hd w)) v)
      else Inl ValueError)"

text \<open>
  \<^verbatim>\<open>A @ x\<close> for a two-dimensional \<open>A\<close> and a one-dimensional \<open>x\<close>: the number of columns of
  \<open>A\<close> must be the length of \<open>x\<close>. The sum of a row runs over all its columns, the diagonal
  included.
\<close>

definition matvec :: "mat \<Rightarrow> vec \<Rightarrow> error + vec" where
  "matvec A x =
     (if list_all (\<lambda>row. length row = length x) A
      then Inr (map (\<lambda>row. sum_list (map2 (\<lambda>a b. a * b) row x)) A)
      else Inl ValueError)"

text \<open>\<^verbatim>\<open>np.sum(A, axis=1)\<close>: the sum of each row.\<close>

definition np_sum_axis1 :: "mat \<Rightarrow> vec" where
  "np_sum_axis1 A = map sum_list A"

subsection \<open>The model (lines 80 to 87)\<close>

text \<open>
  Line 86, the local \<^verbatim>\<open>transition\<close>:
  \<^verbatim>\<open>transition_matrix @ x - np.sum(transition_matrix, axis=1) * x\<close>.
\<close>

definition transition_term :: "mat \<Rightarrow> vec \<Rightarrow> error + vec" where
  "transition_term transition_matrix x =
     (case matvec transition_matrix x of
        Inl e \<Rightarrow> Inl e
      | Inr inflow \<Rightarrow>
         (case broadcast (\<lambda>a b. a * b) (np_sum_axis1 transition_matrix) x of
            Inl e \<Rightarrow> Inl e
          | Inr outflow \<Rightarrow> broadcast (\<lambda>a b. a - b) inflow outflow))"

definition tumor_dynamics :: "real \<Rightarrow> vec \<Rightarrow> real \<Rightarrow> vec \<Rightarrow> mat \<Rightarrow> error + vec" where
  "tumor_dynamics t x epsilon mu_profile transition_matrix =
     (let r = [0.03, 0.02, 0.015];
          K = 1.0;
          total_tumor = np_sum x
      in case broadcast (\<lambda>a b. a * b) (scalar_mul (- epsilon) mu_profile) x of
           Inl e \<Rightarrow> Inl e
         | Inr treatment_effect \<Rightarrow>
            (case broadcast (\<lambda>a b. a * b) r x of
               Inl e \<Rightarrow> Inl e
             | Inr rx \<Rightarrow>
                (let growth = mul_scalar rx (1 - total_tumor / K)
                 in case transition_term transition_matrix x of
                      Inl e \<Rightarrow> Inl e
                    | Inr transition \<Rightarrow>
                       (case broadcast (\<lambda>a b. a + b) growth treatment_effect of
                          Inl e \<Rightarrow> Inl e
                        | Inr s \<Rightarrow> broadcast (\<lambda>a b. a + b) s transition))))"

subsection \<open>The scenario table and the fixed configuration (lines 39 to 78)\<close>

text \<open>A scenario's parameter bundle: the inner dictionary with the keys \<^verbatim>\<open>"mu"\<close>,
  \<^verbatim>\<open>"epsilon"\<close> and \<^verbatim>\<open>"transition"\<close>.\<close>

record config =
  cfg_mu :: vec
  cfg_epsilon :: real
  cfg_transition :: real

text \<open>The dictionary \<^verbatim>\<open>scenarios\<close>, in the order of its literal.\<close>

definition scenarios :: "(string \<times> config) list" where
  "scenarios =
    [(''Scenario 1: Sensitive + High therapy'',
        \<lparr>cfg_mu = [0.9, 0.5, 0.1], cfg_epsilon = 0.8, cfg_transition = 1.0\<rparr>),
     (''Scenario 2: Partially resistant + Medium therapy'',
        \<lparr>cfg_mu = [0.7, 0.4, 0.2], cfg_epsilon = 0.5, cfg_transition = 1.0\<rparr>),
     (''Scenario 3: High resistance + Low therapy'',
        \<lparr>cfg_mu = [0.4, 0.3, 0.1], cfg_epsilon = 0.3, cfg_transition = 1.0\<rparr>),
     (''Scenario 4: Adaptive mix + High plasticity'',
        \<lparr>cfg_mu = [0.8, 0.5, 0.25], cfg_epsilon = 0.6, cfg_transition = 2.0\<rparr>),
     (''Scenario 5: Experimental control'',
        \<lparr>cfg_mu = [0.6, 0.6, 0.6], cfg_epsilon = 0.0, cfg_transition = 0.0\<rparr>),
     (''Scenario 6: Heterogeneous tumor + Sequential therapy'',
        \<lparr>cfg_mu = [0.85, 0.6, 0.3], cfg_epsilon = 0.9, cfg_transition = 0.8\<rparr>),
     (''Scenario 7: Slow adaptive tumor + Reduced plasticity'',
        \<lparr>cfg_mu = [0.75, 0.45, 0.2], cfg_epsilon = 0.4, cfg_transition = 0.5\<rparr>)]"






definition x0 :: vec where
  "x0 = [0.03, 0.015, 0.005]"

definition base_transition :: mat where
  "base_transition =
     [[0.0, 0.001, 0.0005],
      [0.001, 0.0, 0.001],
      [0.0002, 0.001, 0.0]]"

subsection \<open>The scenario loop (lines 89 to 99)\<close>



text \<open>Line 92: \<^verbatim>\<open>base_transition * config["transition"]\<close>.\<close>

definition scenario_transition_matrix :: "config \<Rightarrow> mat" where
  "scenario_transition_matrix config =
     map (\<lambda>row. mul_scalar row (cfg_transition config)) base_transition"




subsection \<open>Derived quantities (lines 104 and 117)\<close>

text \<open>
  The result of a floating-point division: a finite number, an infinity or NaN. numpy
  does not raise on a zero divisor (it warns): \<open>0 / 0\<close> is NaN and \<open>a / 0\<close> is an infinity
  with the sign of \<open>a\<close>. The sign of a zero divisor is not modelled.
\<close>

datatype npfloat = Fin real | PosInf | NegInf | NaN

definition np_divide :: "real \<Rightarrow> real \<Rightarrow> npfloat" where
  "np_divide a b =
     (if b \<noteq> 0 then Fin (a / b)
      else if a = 0 then NaN
      else if 0 < a then PosInf
      else NegInf)"

text \<open>\<^verbatim>\<open>np.sum(y, axis=0)\<close>: the sum of each column of a matrix given by its rows.\<close>

definition np_sum_axis0 :: "mat \<Rightarrow> vec" where
  "np_sum_axis0 y =
     (case y of
        [] \<Rightarrow> []
      | row # _ \<Rightarrow> map (\<lambda>j. sum_list (map (\<lambda>r. r ! j) y)) [0..<length row])"

text \<open>
  Line 117: \<^verbatim>\<open>results[key].y / np.sum(results[key].y, axis=0)\<close>. The divisor has one entry
  per column and is broadcast over the rows.
\<close>

definition proportions :: "mat \<Rightarrow> npfloat list list" where
  "proportions y = map (\<lambda>row. map2 np_divide row (np_sum_axis0 y)) y"

text \<open>A matrix with \<open>n\<close> columns in each of its three rows, the shape of \<^verbatim>\<open>sol.y\<close>.\<close>

definition shape3n :: "nat \<Rightarrow> mat \<Rightarrow> bool" where
  "shape3n n y = (length y = 3 \<and> list_all (\<lambda>row. length row = n) y)"

text \<open>The shape the program works with: three components, a three by three matrix.\<close>

definition shape3 :: "vec \<Rightarrow> bool" where
  "shape3 v = (length v = 3)"

definition shape33 :: "mat \<Rightarrow> bool" where
  "shape33 A = (length A = 3 \<and> list_all shape3 A)"

text \<open>The indices other than \<open>i\<close> among the three.\<close>

definition others :: "nat \<Rightarrow> nat list" where
  "others i = filter (\<lambda>j. j \<noteq> i) [0..<3]"

subsection \<open>Predicates and a sample integrator for the statements below\<close>





section \<open>Properties\<close>

subsection \<open>Auxiliary facts\<close>

lemma length3_D: "length v = 3 \<Longrightarrow> \<exists>a b c. v = [a, b, c]"
  by (cases v; simp; cases "tl v"; simp; cases "tl (tl v)"; auto)

lemma shape3_D: "shape3 v \<Longrightarrow> \<exists>a b c. v = [a, b, c]"
  unfolding shape3_def by (rule length3_D)

lemma shape33_D:
  "shape33 A \<Longrightarrow> \<exists>a b c d e f g h k. A = [[a, b, c], [d, e, f], [g, h, k]]"
proof -
  assume A: "shape33 A"
  then have "length A = 3" by (simp add: shape33_def)
  then obtain u v w where uvw: "A = [u, v, w]"
    using length3_D [of A] by auto
  with A have "shape3 u" "shape3 v" "shape3 w" by (simp_all add: shape33_def)
  then show ?thesis using uvw by (metis shape3_D)
qed

lemma upt_3: "[0..<3] = [0, Suc 0, 2]"
  by (simp add: upt_rec)

lemma less_3_cases: "i < (3::nat) \<Longrightarrow> i = 0 \<or> i = Suc 0 \<or> i = 2"
  by arith

lemma scenario_matrix_eq:
  "scenario_transition_matrix config =
     [[0 * cfg_transition config, 0.001 * cfg_transition config, 0.0005 * cfg_transition config],
      [0.001 * cfg_transition config, 0 * cfg_transition config, 0.001 * cfg_transition config],
      [0.0002 * cfg_transition config, 0.001 * cfg_transition config, 0 * cfg_transition config]]"
  by (simp add: scenario_transition_matrix_def base_transition_def mul_scalar_def)

lemma shape3n_D:
  "shape3n n y \<Longrightarrow> \<exists>a b c. y = [a, b, c] \<and> length a = n \<and> length b = n \<and> length c = n"
  unfolding shape3n_def using length3_D [of y] by auto

lemma np_sum_axis0_nth:
  assumes "shape3n n y" and "j < n"
  shows "np_sum_axis0 y ! j = y ! 0 ! j + y ! 1 ! j + y ! 2 ! j"
proof -
  from assms(1) obtain a b c where y: "y = [a, b, c]"
    and l: "length a = n" "length b = n" "length c = n"
    using shape3n_D by blast
  show ?thesis using assms(2) l by (simp add: y np_sum_axis0_def)
qed

lemma length_np_sum_axis0: "shape3n n y \<Longrightarrow> length (np_sum_axis0 y) = n"
  using shape3n_D [of n y] by (auto simp: np_sum_axis0_def)

lemma proportions_nth:
  assumes "shape3n n y" and "j < n" and "i < 3"
  shows "proportions y ! i ! j = np_divide (y ! i ! j) (np_sum_axis0 y ! j)"
proof -
  from assms(1) obtain a b c where y: "y = [a, b, c]"
    and l: "length a = n" "length b = n" "length c = n"
    using shape3n_D by blast
  have n: "length (np_sum_axis0 y) = n" using assms(1) by (rule length_np_sum_axis0)
  from assms(3) have "i = 0 \<or> i = Suc 0 \<or> i = 2" by (rule less_3_cases)
  then show ?thesis using assms(2) l n unfolding proportions_def
    by (auto simp: y)
qed

lemma proportions_shape:
  "shape3n n y \<Longrightarrow>
     length (proportions y) = 3 \<and> list_all (\<lambda>row. length row = n) (proportions y)"
  using shape3n_D [of n y] length_np_sum_axis0 [of n y]
  by (auto simp: proportions_def)


























subsection \<open>The claims\<close>

text \<open>
  C1. For every time \<open>t\<close>, every three-component state \<open>x\<close> and every parameter bundle
  (\<open>epsilon\<close>, a three-component \<open>mu\<close>, a three by three matrix \<open>T\<close>), the model returns a
  three-component vector whose component \<open>i\<close> is
  \<open>r\<^sub>i x\<^sub>i (1 - (x\<^sub>0 + x\<^sub>1 + x\<^sub>2) / K) - epsilon mu\<^sub>i x\<^sub>i + (\<Sum>j\<noteq>i. T\<^sub>i\<^sub>j x\<^sub>j) - x\<^sub>i (\<Sum>j\<noteq>i. T\<^sub>i\<^sub>j)\<close>
  with \<open>r = (0.03, 0.02, 0.015)\<close> and \<open>K = 1\<close>. The code sums over all \<open>j\<close>; the diagonal
  entry cancels between inflow and outflow.
\<close>

theorem tumor_dynamics_formula:
  assumes "shape3 x" and "shape3 mu_profile" and "shape33 T"
  shows "\<exists>d. tumor_dynamics t x epsilon mu_profile T = Inr d \<and> length d = 3 \<and>
    list_all (\<lambda>i. d ! i =
        [0.03, 0.02, 0.015] ! i * x ! i * (1 - (x ! 0 + x ! 1 + x ! 2) / 1.0)
        - epsilon * mu_profile ! i * x ! i
        + sum_list (map (\<lambda>j. T ! i ! j * x ! j) (others i))
        - x ! i * sum_list (map (\<lambda>j. T ! i ! j) (others i))) [0..<3]"
proof -
  from assms(1) obtain x0 x1 x2 where x: "x = [x0, x1, x2]"
    using shape3_D by blast
  from assms(2) obtain m0 m1 m2 where m: "mu_profile = [m0, m1, m2]"
    using shape3_D by blast
  from assms(3) obtain a b c d e f g h k where T: "T = [[a, b, c], [d, e, f], [g, h, k]]"
    using shape33_D by blast
  show ?thesis
    unfolding x m T
    by (simp add: tumor_dynamics_def transition_term_def broadcast_def matvec_def
        np_sum_axis1_def np_sum_def scalar_mul_def mul_scalar_def others_def upt_3
        algebra_simps)
qed

text \<open>The first scenario of the table at the initial state, with the derivative there.\<close>

theorem tumor_dynamics_formula_witness:
  "shape3 [0.03, 0.015, 0.005] \<and> shape3 [0.9, 0.5, 0.1] \<and>
   shape33 [[0.0, 0.001, 0.0005], [0.001, 0.0, 0.001], [0.0002, 0.001, 0.0]] \<and>
   (\<exists>d. tumor_dynamics 0 [0.03, 0.015, 0.005] 0.8 [0.9, 0.5, 0.1]
          [[0.0, 0.001, 0.0005], [0.001, 0.0, 0.001], [0.0002, 0.001, 0.0]] = Inr d \<and>
        length d = 3) \<and>
   tumor_dynamics 0 [0.03, 0.015, 0.005] 0.8 [0.9, 0.5, 0.1]
     [[0.0, 0.001, 0.0005], [0.001, 0.0, 0.001], [0.0002, 0.001, 0.0]] =
     Inr [- 0.0207725, - 0.00571, - 0.00031375]"
proof -
  have 1: "shape3 [0.03, 0.015, 0.005]" and 2: "shape3 [0.9, 0.5, 0.1]"
    by (simp_all add: shape3_def)
  have 3: "shape33 [[0.0, 0.001, 0.0005], [0.001, 0.0, 0.001], [0.0002, 0.001, 0.0]]"
    by (simp add: shape33_def shape3_def)
  have 4: "tumor_dynamics 0 [0.03, 0.015, 0.005] 0.8 [0.9, 0.5, 0.1]
     [[0.0, 0.001, 0.0005], [0.001, 0.0, 0.001], [0.0002, 0.001, 0.0]] =
     Inr [- 0.0207725, - 0.00571, - 0.00031375]"
    by (simp add: tumor_dynamics_def transition_term_def broadcast_def matvec_def
        np_sum_axis1_def np_sum_def scalar_mul_def mul_scalar_def)
  from tumor_dynamics_formula [OF 1 2 3, of 0 "0.8"] 1 2 3 4 show ?thesis
    by blast
qed

text \<open>
  C2, as the code has it. Line 117 divides without a guard. Computing the proportions
  of a three-row trajectory never raises and keeps the shape; at a time point whose total
  is zero each proportion is the floating-point result of a division by zero: NaN where
  the component is zero, plus or minus infinity where it is positive or negative. It is
  never the number zero.
\<close>

theorem proportions_zero_total:
  assumes "shape3n n y" and "j < n" and "np_sum_axis0 y ! j = 0" and "i < 3"
  shows "length (proportions y) = 3 \<and> list_all (\<lambda>row. length row = n) (proportions y) \<and>
         proportions y ! i ! j =
           (if y ! i ! j = 0 then NaN else if 0 < y ! i ! j then PosInf else NegInf) \<and>
         proportions y ! i ! j \<noteq> Fin 0"
  using proportions_nth [OF assms(1,2,4)] assms(3) proportions_shape [OF assms(1)]
  by (simp add: np_divide_def)

text \<open>A trajectory of one sample, all three components zero.\<close>

theorem proportions_zero_total_witness:
  "shape3n 1 [[0], [0], [0]] \<and> np_sum_axis0 [[0], [0], [0]] ! 0 = 0 \<and>
   proportions [[0], [0], [0]] ! 2 ! 0 = NaN"
proof -
  have 1: "shape3n 1 [[0], [0], [0]]" by (simp add: shape3n_def)
  have 2: "(0::nat) < 1" and 4: "(2::nat) < 3" by simp_all
  have 3: "np_sum_axis0 [[0], [0], [0]] ! 0 = 0" by (simp add: np_sum_axis0_def)
  from proportions_zero_total [OF 1 2 3 4] 1 3 show ?thesis by simp
qed

text \<open>
  The claim as stated asks for zero (or a documented marker) at a zero total. Two time
  points with total zero: at the first all components are zero and the proportions are
  NaN; at the second the components are \<open>1\<close>, \<open>-1\<close> and \<open>0\<close> and two of the proportions
  are infinite.
\<close>

theorem proportions_zero_total_counterexample:
  "np_sum_axis0 [[0, 1], [0, - 1], [0, 0]] = [0, 0] \<and>
   proportions [[0, 1], [0, - 1], [0, 0]] = [[NaN, PosInf], [NaN, NegInf], [NaN, NaN]]"
  by (simp add: proportions_def np_sum_axis0_def np_divide_def)




text \<open>
  C4. For every three-component state \<open>x\<close> and every scenario whose \<^verbatim>\<open>transition\<close> scalar
  is 0, the state-transition term (line 86, on the matrix of line 92) is the zero vector.
\<close>

theorem transition_zero:
  assumes "cfg_transition config = 0" and "shape3 x"
  shows "transition_term (scenario_transition_matrix config) x = Inr [0, 0, 0]"
proof -
  from assms(2) obtain a b c where x: "x = [a, b, c]"
    using shape3_D by blast
  show ?thesis
    unfolding x scenario_matrix_eq
    by (simp add: assms(1) transition_term_def matvec_def broadcast_def np_sum_axis1_def)
qed

text \<open>The scenario of the table with \<^verbatim>\<open>transition = 0\<close>, at the initial state.\<close>

theorem transition_zero_witness:
  "map_of scenarios ''Scenario 5: Experimental control'' =
     Some \<lparr>cfg_mu = [0.6, 0.6, 0.6], cfg_epsilon = 0.0, cfg_transition = 0.0\<rparr> \<and>
   shape3 x0 \<and>
   transition_term (scenario_transition_matrix
      \<lparr>cfg_mu = [0.6, 0.6, 0.6], cfg_epsilon = 0.0, cfg_transition = 0.0\<rparr>) x0 = Inr [0, 0, 0]"
proof -
  have 1: "cfg_transition \<lparr>cfg_mu = [0.6, 0.6, 0.6], cfg_epsilon = 0.0, cfg_transition = 0.0\<rparr> = 0"
    by simp
  have 2: "shape3 x0" by (simp add: shape3_def x0_def)
  have 3: "map_of scenarios ''Scenario 5: Experimental control'' =
     Some \<lparr>cfg_mu = [0.6, 0.6, 0.6], cfg_epsilon = 0.0, cfg_transition = 0.0\<rparr>"
    by (simp add: scenarios_def)
  from transition_zero [OF 1 2] 2 3 show ?thesis by blast
qed

text \<open>
  C5. For every three-row trajectory and every time point at which the total (the sum of
  the three components) is strictly positive, the three proportions are finite numbers
  and sum to 1.
\<close>

theorem proportions_sum_one:
  assumes "shape3n n y" and "j < n" and "0 < np_sum_axis0 y ! j"
  shows "np_sum_axis0 y ! j = y ! 0 ! j + y ! 1 ! j + y ! 2 ! j \<and>
         (\<exists>p0 p1 p2. proportions y ! 0 ! j = Fin p0 \<and> proportions y ! 1 ! j = Fin p1 \<and>
           proportions y ! 2 ! j = Fin p2 \<and> p0 + p1 + p2 = 1)"
proof -
  let ?s = "np_sum_axis0 y ! j"
  have s: "?s = y ! 0 ! j + y ! 1 ! j + y ! 2 ! j"
    using assms(1,2) by (rule np_sum_axis0_nth)
  have nz: "?s \<noteq> 0" using assms(3) by simp
  have p: "proportions y ! i ! j = Fin (y ! i ! j / ?s)" if "i < 3" for i
    using proportions_nth [OF assms(1,2) that] nz by (simp add: np_divide_def)
  have "y ! 0 ! j / ?s + y ! 1 ! j / ?s + y ! 2 ! j / ?s = (y ! 0 ! j + y ! 1 ! j + y ! 2 ! j) / ?s"
    by (simp add: add_divide_distrib)
  also have "\<dots> = 1" using nz s by simp
  finally show ?thesis using p [of 0] p [of 1] p [of 2] s by simp
qed

text \<open>Two samples, the first the initial state: its proportions are 0.6, 0.3 and 0.1.\<close>

theorem proportions_sum_one_witness:
  "shape3n 2 [[0.03, 0.02], [0.015, 0.02], [0.005, 0.01]] \<and>
   0 < np_sum_axis0 [[0.03, 0.02], [0.015, 0.02], [0.005, 0.01]] ! 0 \<and>
   proportions [[0.03, 0.02], [0.015, 0.02], [0.005, 0.01]] ! 0 ! 0 = Fin 0.6 \<and>
   proportions [[0.03, 0.02], [0.015, 0.02], [0.005, 0.01]] ! 1 ! 0 = Fin 0.3 \<and>
   proportions [[0.03, 0.02], [0.015, 0.02], [0.005, 0.01]] ! 2 ! 0 = Fin 0.1"
proof -
  let ?y = "[[0.03, 0.02], [0.015, 0.02], [0.005, 0.01::real]]"
  have 1: "shape3n 2 ?y" by (simp add: shape3n_def)
  have 2: "(0::nat) < 2" by simp
  have 3: "0 < np_sum_axis0 ?y ! 0" by (simp add: np_sum_axis0_def)
  from proportions_sum_one [OF 1 2 3]
  obtain p0 p1 p2 where "proportions ?y ! 0 ! 0 = Fin p0" "p0 + p1 + p2 = 1" by blast
  moreover have "proportions ?y ! 0 ! 0 = Fin 0.6"
    "proportions ?y ! 1 ! 0 = Fin 0.3" "proportions ?y ! 2 ! 0 = Fin 0.1"
    by (simp_all add: proportions_def np_sum_axis0_def np_divide_def)
  ultimately show ?thesis using 1 3 by simp
qed

text \<open>
  C6. Every entry of the scenario table has its three \<^verbatim>\<open>mu\<close> components in \<open>[0, 1]\<close>, its
  \<^verbatim>\<open>epsilon\<close> in \<open>[0, 1]\<close> and its \<^verbatim>\<open>transition\<close> scalar non-negative; the base transition
  matrix is three by three with non-negative entries and a zero diagonal; the initial
  state has three strictly positive entries.
\<close>

theorem scenario_invariants:
  "list_all (\<lambda>(name, c). shape3 (cfg_mu c) \<and> list_all (\<lambda>m. 0 \<le> m \<and> m \<le> 1) (cfg_mu c) \<and>
       0 \<le> cfg_epsilon c \<and> cfg_epsilon c \<le> 1 \<and> 0 \<le> cfg_transition c) scenarios \<and>
   length scenarios = 7 \<and>
   shape33 base_transition \<and>
   list_all (list_all (\<lambda>v. 0 \<le> v)) base_transition \<and>
   list_all (\<lambda>i. base_transition ! i ! i = 0) [0..<3] \<and>
   shape3 x0 \<and> list_all (\<lambda>v. 0 < v) x0"
  by (simp add: scenarios_def base_transition_def x0_def shape3_def shape33_def upt_3)







text \<open>
  C10. The state-transition term does not conserve the total: with the base matrix scaled
  by a scenario's \<^verbatim>\<open>transition\<close> scalar, the three components of the term sum to
  \<open>0.0003 * transition * (x\<^sub>2 - x\<^sub>0)\<close> (resistant minus sensitive), and this is not zero at
  the non-negative state \<open>(0, 0, 1)\<close>. The outflow of line 86 uses the row sums of the
  matrix.
\<close>

theorem transition_not_conservative:
  "(\<forall>x. shape3 x \<longrightarrow>
      (\<exists>tr. transition_term (scenario_transition_matrix config) x = Inr tr \<and>
            np_sum tr = 0.0003 * cfg_transition config * (x ! 2 - x ! 0))) \<and>
   list_all (\<lambda>v. 0 \<le> v) [0, 0, 1::real] \<and>
   (\<exists>tr. transition_term base_transition [0, 0, 1] = Inr tr \<and> np_sum tr \<noteq> 0)"
proof (intro conjI allI impI)
  fix x :: vec assume "shape3 x"
  then obtain a b c where x: "x = [a, b, c]"
    using shape3_D by blast
  show "\<exists>tr. transition_term (scenario_transition_matrix config) x = Inr tr \<and>
            np_sum tr = 0.0003 * cfg_transition config * (x ! 2 - x ! 0)"
    unfolding x scenario_matrix_eq
    by (simp add: transition_term_def matvec_def broadcast_def np_sum_axis1_def np_sum_def
        algebra_simps)
next
  show "list_all (\<lambda>v. 0 \<le> v) [0, 0, 1::real]" by simp
next
  show "\<exists>tr. transition_term base_transition [0, 0, 1] = Inr tr \<and> np_sum tr \<noteq> 0"
    by (simp add: base_transition_def transition_term_def matvec_def broadcast_def
        np_sum_axis1_def np_sum_def)
qed

text \<open>The first scenario of the table at the initial state: the term sums to \<open>-0.0000075\<close>.\<close>

theorem transition_not_conservative_witness:
  "shape3 x0 \<and>
   (\<exists>tr. transition_term (scenario_transition_matrix
            \<lparr>cfg_mu = [0.9, 0.5, 0.1], cfg_epsilon = 0.8, cfg_transition = 1.0\<rparr>) x0 = Inr tr \<and>
         np_sum tr = - 0.0000075)"
proof -
  have 1: "shape3 x0" by (simp add: shape3_def x0_def)
  from transition_not_conservative
    [of "\<lparr>cfg_mu = [0.9, 0.5, 0.1], cfg_epsilon = 0.8, cfg_transition = 1.0\<rparr>"] 1
  have "\<exists>tr. transition_term (scenario_transition_matrix
            \<lparr>cfg_mu = [0.9, 0.5, 0.1], cfg_epsilon = 0.8, cfg_transition = 1.0\<rparr>) x0 = Inr tr \<and>
         np_sum tr = 0.0003 * cfg_transition
            \<lparr>cfg_mu = [0.9, 0.5, 0.1], cfg_epsilon = 0.8, cfg_transition = 1.0\<rparr> * (x0 ! 2 - x0 ! 0)"
    by blast
  then show ?thesis using 1 by (simp add: x0_def)
qed

end
